theory Spec2Isabelle
  imports Complex_Main
begin

section \<open>JavaScript numbers\<close>

text \<open>
  The geometry classes and the numeric range compute on JavaScript numbers. A number is
  modelled as a real extended by the three special values of the language: the finite
  values are exact reals (rounding error and the sign of zero are abstracted away), and
  \<open>NaN\<close>, \<open>Infinity\<close> and \<open>-Infinity\<close> behave as the language defines them: every
  comparison with \<open>NaN\<close> is false, \<open>Infinity - Infinity\<close>, \<open>0 * Infinity\<close> and \<open>0 / 0\<close> are
  \<open>NaN\<close>, and a nonzero finite number divided by zero is an infinity.
\<close>

datatype jsnum = NaN | NegInf | Fin real | PosInf

fun js_neg :: "jsnum \<Rightarrow> jsnum" where
  "js_neg NaN = NaN"
| "js_neg NegInf = PosInf"
| "js_neg (Fin a) = Fin (- a)"
| "js_neg PosInf = NegInf"

fun js_add :: "jsnum \<Rightarrow> jsnum \<Rightarrow> jsnum" where
  "js_add NaN _ = NaN"
| "js_add _ NaN = NaN"
| "js_add (Fin a) (Fin b) = Fin (a + b)"
| "js_add PosInf NegInf = NaN"
| "js_add NegInf PosInf = NaN"
| "js_add PosInf _ = PosInf"
| "js_add _ PosInf = PosInf"
| "js_add NegInf _ = NegInf"
| "js_add _ NegInf = NegInf"

definition js_sub :: "jsnum \<Rightarrow> jsnum \<Rightarrow> jsnum" where
  "js_sub a b = js_add a (js_neg b)"

text \<open>The sign of an infinite product or quotient; zero counts as positive.\<close>

definition signed_inf :: "bool \<Rightarrow> jsnum" where
  "signed_inf negative = (if negative then NegInf else PosInf)"

fun js_mul :: "jsnum \<Rightarrow> jsnum \<Rightarrow> jsnum" where
  "js_mul NaN _ = NaN"
| "js_mul _ NaN = NaN"
| "js_mul (Fin a) (Fin b) = Fin (a * b)"
| "js_mul (Fin a) PosInf = (if a = 0 then NaN else signed_inf (a < 0))"
| "js_mul (Fin a) NegInf = (if a = 0 then NaN else signed_inf (0 < a))"
| "js_mul PosInf (Fin b) = (if b = 0 then NaN else signed_inf (b < 0))"
| "js_mul NegInf (Fin b) = (if b = 0 then NaN else signed_inf (0 < b))"
| "js_mul PosInf PosInf = PosInf"
| "js_mul NegInf NegInf = PosInf"
| "js_mul PosInf NegInf = NegInf"
| "js_mul NegInf PosInf = NegInf"

fun js_div :: "jsnum \<Rightarrow> jsnum \<Rightarrow> jsnum" where
  "js_div NaN _ = NaN"
| "js_div _ NaN = NaN"
| "js_div (Fin a) (Fin b) =
     (if b \<noteq> 0 then Fin (a / b) else if a = 0 then NaN else signed_inf (a < 0))"
| "js_div (Fin a) _ = Fin 0"
| "js_div PosInf (Fin b) = signed_inf (b < 0)"
| "js_div NegInf (Fin b) = signed_inf (0 \<le> b)"
| "js_div _ _ = NaN"

text \<open>The comparisons \<open><\<close>, \<open>>\<close>, \<open><=\<close>, \<open>>=\<close> and \<open>===\<close>: false as soon as one side is \<open>NaN\<close>.\<close>

fun js_lt :: "jsnum \<Rightarrow> jsnum \<Rightarrow> bool" where
  "js_lt NaN _ = False"
| "js_lt _ NaN = False"
| "js_lt (Fin a) (Fin b) = (a < b)"
| "js_lt _ NegInf = False"
| "js_lt PosInf _ = False"
| "js_lt _ _ = True"

definition js_gt :: "jsnum \<Rightarrow> jsnum \<Rightarrow> bool" where
  "js_gt a b = js_lt b a"

fun js_le :: "jsnum \<Rightarrow> jsnum \<Rightarrow> bool" where
  "js_le NaN _ = False"
| "js_le _ NaN = False"
| "js_le (Fin a) (Fin b) = (a \<le> b)"
| "js_le NegInf _ = True"
| "js_le _ PosInf = True"
| "js_le _ _ = False"

definition js_ge :: "jsnum \<Rightarrow> jsnum \<Rightarrow> bool" where
  "js_ge a b = js_le b a"

definition js_eq :: "jsnum \<Rightarrow> jsnum \<Rightarrow> bool" where
  "js_eq a b = (a \<noteq> NaN \<and> a = b)"

definition Number_isNaN :: "jsnum \<Rightarrow> bool" where
  "Number_isNaN a = (a = NaN)"

text \<open>A number in a condition is false when it is zero or \<open>NaN\<close>.\<close>

fun truthy :: "jsnum \<Rightarrow> bool" where
  "truthy NaN = False"
| "truthy (Fin a) = (a \<noteq> 0)"
| "truthy _ = True"

text \<open>\<open>Math.round\<close> rounds to the nearest integer, a tie towards plus infinity.\<close>

fun Math_round :: "jsnum \<Rightarrow> jsnum" where
  "Math_round (Fin a) = Fin (of_int \<lfloor>a + 1 / 2\<rfloor>)"
| "Math_round v = v"

definition Math_max :: "jsnum \<Rightarrow> jsnum \<Rightarrow> jsnum" where
  "Math_max a b = (if a = NaN \<or> b = NaN then NaN else if js_lt a b then b else a)"

definition Math_min :: "jsnum \<Rightarrow> jsnum \<Rightarrow> jsnum" where
  "Math_min a b = (if a = NaN \<or> b = NaN then NaN else if js_lt b a then b else a)"


section \<open>Points\<close>

text \<open>
  \<open>CGPoint\<close> of \<open>cg-point\<close>: the fields \<open>x\<close> and \<open>y\<close>. Record fields share one name
  space, so each field carries a prefix for its class.
\<close>

record CGPoint =
  pt_x :: jsnum
  pt_y :: jsnum


fun CGPoint_add :: "CGPoint list \<Rightarrow> CGPoint \<Rightarrow> CGPoint" where
  "CGPoint_add [] this = this"
| "CGPoint_add (point # points) this =
     CGPoint_add points
       (this\<lparr>pt_x := js_add (pt_x this) (pt_x point), pt_y := js_add (pt_y this) (pt_y point)\<rparr>)"


subsection \<open>Points as shared objects\<close>

text \<open>
  \<open>subtract\<close> passes the object it receives to \<open>negate\<close>, which writes to it, so the
  point methods are also given on a store of point objects: an address names an object,
  a method takes the store and returns \<open>this\<close> with the store after the call.
\<close>

type_synonym addr = nat
type_synonym store = "addr \<Rightarrow> CGPoint"

definition negate :: "addr \<Rightarrow> store \<Rightarrow> addr \<times> store" where
  "negate this s =
     (let s1 = s(this := (s this)\<lparr>pt_x := js_neg (pt_x (s this))\<rparr>);
          s2 = s1(this := (s1 this)\<lparr>pt_y := js_neg (pt_y (s1 this))\<rparr>)
      in (this, s2))"

fun add :: "addr \<Rightarrow> addr list \<Rightarrow> store \<Rightarrow> addr \<times> store" where
  "add this [] s = (this, s)"
| "add this (point # points) s =
     (let s1 = s(this := (s this)\<lparr>pt_x := js_add (pt_x (s this)) (pt_x (s point))\<rparr>);
          s2 = s1(this := (s1 this)\<lparr>pt_y := js_add (pt_y (s1 this)) (pt_y (s1 point))\<rparr>)
      in add this points s2)"

definition subtract :: "addr \<Rightarrow> addr \<Rightarrow> store \<Rightarrow> addr \<times> store" where
  "subtract this point s = (case negate point s of (negated, s') \<Rightarrow> add this [negated] s')"


section \<open>Sizes\<close>

record CGSize =
  sz_width :: jsnum
  sz_height :: jsnum

text \<open>\<open>Partial<CGSizeValue>\<close>: a field that is absent, \<open>undefined\<close> or \<open>null\<close> is \<open>None\<close>.\<close>

record CGSizePartial =
  part_width :: "jsnum option"
  part_height :: "jsnum option"

definition aspectRatio :: "CGSize \<Rightarrow> jsnum" where
  "aspectRatio this = js_div (sz_width this) (sz_height this)"

definition CGSize_set :: "CGSizePartial \<Rightarrow> bool \<Rightarrow> CGSize \<Rightarrow> CGSize" where
  "CGSize_set sz lockAspectRatio this =
     (let width0 = (case part_width sz of Some w \<Rightarrow> w | None \<Rightarrow> sz_width this);
          height0 = (case part_height sz of Some h \<Rightarrow> h | None \<Rightarrow> sz_height this);
          width1 =
            (if lockAspectRatio then
               (case (part_width sz, part_height sz) of
                  (None, Some h) \<Rightarrow> js_mul h (aspectRatio this)
                | _ \<Rightarrow> width0)
             else width0);
          height1 =
            (if lockAspectRatio then
               (case (part_width sz, part_height sz) of
                  (Some w, None) \<Rightarrow>
                    if truthy (aspectRatio this) then js_div w (aspectRatio this) else height0
                | _ \<Rightarrow> height0)
             else height0)
      in this\<lparr>sz_width := width1, sz_height := height1\<rparr>)"


section \<open>Rectangles\<close>

subsection \<open>\<open>CGRect\<close>: an origin and a size\<close>

record CGRect =
  origin :: CGPoint
  rect_size :: CGSize

definition CGRect_create :: "jsnum \<Rightarrow> jsnum \<Rightarrow> jsnum \<Rightarrow> jsnum \<Rightarrow> CGRect" where
  "CGRect_create x0 y0 w h =
     \<lparr>origin = \<lparr>pt_x = x0, pt_y = y0\<rparr>, rect_size = \<lparr>sz_width = w, sz_height = h\<rparr>\<rparr>"

definition CGRect_x :: "CGRect \<Rightarrow> jsnum" where
  "CGRect_x this = pt_x (origin this)"

definition CGRect_y :: "CGRect \<Rightarrow> jsnum" where
  "CGRect_y this = pt_y (origin this)"

definition CGRect_width :: "CGRect \<Rightarrow> jsnum" where
  "CGRect_width this = sz_width (rect_size this)"

definition CGRect_height :: "CGRect \<Rightarrow> jsnum" where
  "CGRect_height this = sz_height (rect_size this)"

definition minX :: "CGRect \<Rightarrow> jsnum" where
  "minX this = CGRect_x this"

definition maxX :: "CGRect \<Rightarrow> jsnum" where
  "maxX this = js_add (CGRect_x this) (CGRect_width this)"

definition minY :: "CGRect \<Rightarrow> jsnum" where
  "minY this = CGRect_y this"

definition maxY :: "CGRect \<Rightarrow> jsnum" where
  "maxY this = js_add (CGRect_y this) (CGRect_height this)"

definition CGRect_inflate :: "jsnum \<Rightarrow> CGRect \<Rightarrow> CGRect" where
  "CGRect_inflate delta this =
     (let this1 = this\<lparr>origin := CGPoint_add [\<lparr>pt_x = delta, pt_y = delta\<rparr>] (origin this)\<rparr>
      in this1\<lparr>rect_size :=
           CGSize_set
             \<lparr>part_width = Some (js_sub (CGRect_width this1) (js_mul (Fin 1) delta)),
              part_height = Some (js_sub (CGRect_height this1) (js_mul (Fin 1) delta))\<rparr>
             False (rect_size this1)\<rparr>)"


definition containsPoint :: "CGRect \<Rightarrow> CGPoint \<Rightarrow> bool" where
  "containsPoint this point =
     (if js_lt (pt_x point) (minX this) then False
      else if js_gt (pt_x point) (maxX this) then False
      else if js_lt (pt_y point) (minY this) then False
      else if js_gt (pt_y point) (maxY this) then False
      else if Number_isNaN (CGRect_x this) then False
      else if Number_isNaN (CGRect_y this) then False
      else True)"

definition overlapsHorizontally :: "CGRect \<Rightarrow> CGRect \<Rightarrow> bool" where
  "overlapsHorizontally rectA rectB =
     (let aMax = maxX rectA; bMax = maxX rectB
      in js_gt aMax (CGRect_x rectB) \<and> js_gt bMax (CGRect_x rectA))"

definition overlapsVertically :: "CGRect \<Rightarrow> CGRect \<Rightarrow> bool" where
  "overlapsVertically rectA rectB =
     (let aMax = maxY rectA; bMax = maxY rectB
      in js_gt aMax (CGRect_y rectB) \<and> js_gt bMax (CGRect_y rectA))"

definition overlaps :: "CGRect \<Rightarrow> CGRect \<Rightarrow> bool" where
  "overlaps rectA rectB = (overlapsHorizontally rectA rectB \<or> overlapsVertically rectA rectB)"

definition intersects :: "CGRect \<Rightarrow> CGRect \<Rightarrow> bool" where
  "intersects this rect =
     (js_lt (CGRect_x this) (maxX rect) \<and> js_lt (CGRect_y this) (maxY rect)
      \<and> js_gt (maxX this) (CGRect_x rect) \<and> js_gt (maxY this) (CGRect_y rect))"

subsection \<open>\<open>Rect\<close>: the flat variant\<close>

record Rect =
  r_x :: jsnum
  r_y :: jsnum
  r_width :: jsnum
  r_height :: jsnum

definition Rect_inflate :: "jsnum \<Rightarrow> Rect \<Rightarrow> Rect" where
  "Rect_inflate v this =
     (if js_eq v (Fin 0) then this
      else let doubleValue = js_mul (Fin 2) v
           in this\<lparr>r_x := js_sub (r_x this) v, r_y := js_sub (r_y this) v,
                   r_width := js_add (r_width this) doubleValue,
                   r_height := js_add (r_height this) doubleValue\<rparr>)"

definition Rect_containsPoint :: "Rect \<Rightarrow> CGPoint \<Rightarrow> bool" where
  "Rect_containsPoint this point =
     (if js_lt (pt_x point) (r_x this) then False
      else if js_gt (pt_x point) (js_add (r_x this) (r_width this)) then False
      else if js_lt (pt_y point) (r_y this) then False
      else if js_gt (pt_y point) (js_add (r_y this) (r_height this)) then False
      else if Number_isNaN (r_x this) then False
      else if Number_isNaN (r_y this) then False
      else True)"


section \<open>Lines\<close>

record Line =
  line_start :: CGPoint
  line_end :: CGPoint

text \<open>
  \<open>Line.intersection\<close> and \<open>CGLine.intersection\<close> are the same function (one writes
  \<open>a.x * a.x\<close>, the other \<open>a.x ** 2\<close>); \<open>null\<close> is \<open>None\<close>.
\<close>

definition determinant :: "Line \<Rightarrow> Line \<Rightarrow> jsnum" where
  "determinant lineA lineB =
     (let a = line_start lineA; b = line_end lineA; c = line_start lineB; d = line_end lineB
      in js_sub (js_mul (js_sub (pt_x b) (pt_x a)) (js_sub (pt_y d) (pt_y c)))
                (js_mul (js_sub (pt_y b) (pt_y a)) (js_sub (pt_x d) (pt_x c))))"

definition intersection :: "Line \<Rightarrow> Line \<Rightarrow> CGPoint option" where
  "intersection lineA lineB =
     (let a = line_start lineA; b = line_end lineA; c = line_start lineB; d = line_end lineB;
          u = determinant lineA lineB
      in if js_eq u (Fin 0) then None
         else Some
           \<lparr>pt_x =
              js_div
                (js_sub
                   (js_mul (js_add (js_mul (pt_x a) (pt_x a)) (js_mul (pt_y a) (pt_y a)))
                      (js_sub (pt_y d) (pt_y c)))
                   (js_mul (js_add (js_mul (pt_y a) (pt_y a)) (js_mul (pt_x a) (pt_x a)))
                      (js_sub (pt_x d) (pt_x c))))
                u,
            pt_y =
              js_div
                (js_sub
                   (js_mul (js_add (js_mul (pt_x b) (pt_x b)) (js_mul (pt_y b) (pt_y b)))
                      (js_sub (pt_y a) (pt_y c)))
                   (js_mul (js_add (js_mul (pt_y b) (pt_y b)) (js_mul (pt_x b) (pt_x b)))
                      (js_sub (pt_x a) (pt_x c))))
                u\<rparr>)"

section \<open>Numbers and strings\<close>

text \<open>
  The numeric range keeps its value as a number or as a string and converts between the
  two with \<open>toString\<close>, \<open>toFixed\<close> and \<open>parseFloat\<close>. Strings are lists of characters;
  the three library functions are given here on the numbers of the model, so that a
  finite number is written with its exact decimal digits.
\<close>

subsection \<open>Digits\<close>

definition is_digit :: "char \<Rightarrow> bool" where
  "is_digit c = (48 \<le> (of_char c :: nat) \<and> (of_char c :: nat) \<le> 57)"

definition digit_val :: "char \<Rightarrow> nat" where
  "digit_val c = of_char c - 48"

definition digit_char :: "nat \<Rightarrow> char" where
  "digit_char n = ''0123456789'' ! n"

fun digits_of :: "nat \<Rightarrow> string" where
  "digits_of n = (if n < 10 then [digit_char n] else digits_of (n div 10) @ [digit_char (n mod 10)])"

declare digits_of.simps [simp del]

definition nat_of_digits :: "string \<Rightarrow> nat" where
  "nat_of_digits ds = foldl (\<lambda>acc c. 10 * acc + digit_val c) 0 ds"

text \<open>\<open>strip_zeros m\<close> is \<open>(s, z)\<close> with \<open>m = s * 10 ^ z\<close> and no zero at the end of \<open>s\<close>.\<close>

fun strip_zeros :: "nat \<Rightarrow> nat \<times> nat" where
  "strip_zeros m =
     (if m = 0 \<or> m mod 10 \<noteq> 0 then (m, 0)
      else case strip_zeros (m div 10) of (s, z) \<Rightarrow> (s, Suc z))"

declare strip_zeros.simps [simp del]

subsection \<open>\<open>Number.prototype.toString\<close>\<close>

text \<open>
  The number of decimal places of a non-negative number: the least \<open>f\<close> for which
  \<open>a * 10 ^ f\<close> is an integer. The search gives up after \<open>max_places\<close> places, the most a
  double can have; from there on the number is written truncated.
\<close>

definition max_places :: nat where
  "max_places = 1074"

fun frac_places :: "nat \<Rightarrow> real \<Rightarrow> nat" where
  "frac_places fuel a =
     (if fuel = 0 \<or> of_int \<lfloor>a\<rfloor> = a then 0 else Suc (frac_places (fuel - 1) (10 * a)))"

declare frac_places.simps [simp del]

text \<open>
  The digits \<open>ds\<close> of a positive number with the decimal point after the \<open>n\<close>-th digit:
  plain notation up to 21 integer digits and down to six leading zeros, exponent notation
  beyond.
\<close>

definition decimal_notation :: "string \<Rightarrow> int \<Rightarrow> string" where
  "decimal_notation ds n =
     (let k = int (length ds)
      in if k \<le> n \<and> n \<le> 21 then ds @ replicate (nat (n - k)) CHR ''0''
         else if 0 < n \<and> n \<le> 21 then take (nat n) ds @ ''.'' @ drop (nat n) ds
         else if - 6 < n \<and> n \<le> 0 then ''0.'' @ replicate (nat (- n)) CHR ''0'' @ ds
         else (if k = 1 then ds else take 1 ds @ ''.'' @ drop 1 ds)
              @ ''e'' @ (if 0 \<le> n - 1 then ''+'' else ''-'') @ digits_of (nat \<bar>n - 1\<bar>))"

definition Number_toString :: "jsnum \<Rightarrow> string" where
  "Number_toString v =
     (case v of
        NaN \<Rightarrow> ''NaN''
      | PosInf \<Rightarrow> ''Infinity''
      | NegInf \<Rightarrow> ''-Infinity''
      | Fin r \<Rightarrow>
          (let f = frac_places max_places \<bar>r\<bar>;
               m = nat \<lfloor>\<bar>r\<bar> * 10 ^ f\<rfloor>
           in if m = 0 then ''0''
              else
                (case strip_zeros m of (s, z) \<Rightarrow>
                   (if r < 0 then ''-'' else [])
                   @ decimal_notation (digits_of s) (int (length (digits_of s)) + int z - int f))))"

subsection \<open>\<open>Number.prototype.toFixed\<close>\<close>

datatype error = RangeError

text \<open>
  The integer \<open>n\<close> written with its last \<open>f\<close> digits after the decimal point, padded
  with zeros on the left up to one integer digit.
\<close>

definition fixed_notation :: "nat \<Rightarrow> nat \<Rightarrow> string" where
  "fixed_notation n f =
     (let m = digits_of n;
          m' = (if length m \<le> f then replicate (f + 1 - length m) CHR ''0'' @ m else m)
      in if f = 0 then m else take (length m' - f) m' @ ''.'' @ drop (length m' - f) m')"

text \<open>
  \<open>toFixed\<close> raises a range error for more than 100 digits; it rounds the absolute value
  to the nearest multiple of \<open>10 ^ -fractionDigits\<close>, a tie upwards, and from \<open>10 ^ 21\<close> on
  it writes the number as \<open>toString\<close> does.
\<close>

definition Number_toFixed :: "jsnum \<Rightarrow> nat \<Rightarrow> error + string" where
  "Number_toFixed v fractionDigits =
     (if 100 < fractionDigits then Inl RangeError
      else
        (case v of
           Fin r \<Rightarrow>
             Inr ((if r < 0 then ''-'' else [])
               @ (if 10 ^ 21 \<le> \<bar>r\<bar> then Number_toString (Fin \<bar>r\<bar>)
                  else fixed_notation (nat \<lfloor>\<bar>r\<bar> * 10 ^ fractionDigits + 1 / 2\<rfloor>) fractionDigits))
         | _ \<Rightarrow> Inr (Number_toString v)))"

subsection \<open>\<open>parseFloat\<close>\<close>

text \<open>The white space that \<open>parseFloat\<close> skips, as far as it is ASCII.\<close>

definition is_space :: "char \<Rightarrow> bool" where
  "is_space c = ((of_char c :: nat) \<in> {9, 10, 11, 12, 13, 32})"

text \<open>The exponent at the head of a string: \<open>e\<close> or \<open>E\<close>, a sign or none, digits; 0 if there is none.\<close>

definition exponent_part :: "string \<Rightarrow> int" where
  "exponent_part s =
     (case s of
        [] \<Rightarrow> 0
      | c # r \<Rightarrow>
          if c = CHR ''e'' \<or> c = CHR ''E'' then
            (case r of
               [] \<Rightarrow> 0
             | d # q \<Rightarrow>
                 if d = CHR ''-'' then - int (nat_of_digits (takeWhile is_digit q))
                 else if d = CHR ''+'' then int (nat_of_digits (takeWhile is_digit q))
                 else int (nat_of_digits (takeWhile is_digit r)))
          else 0)"

text \<open>
  The longest unsigned decimal literal at the head of a string: \<open>Infinity\<close>, or digits
  with an optional fraction and exponent; \<open>NaN\<close> when the string starts with neither.
\<close>

definition unsigned_literal :: "string \<Rightarrow> jsnum" where
  "unsigned_literal u =
     (if take 8 u = ''Infinity'' then PosInf
      else
        let ip = takeWhile is_digit u;
            r1 = dropWhile is_digit u;
            fp = (case r1 of [] \<Rightarrow> [] | c # r \<Rightarrow> if c = CHR ''.'' then takeWhile is_digit r else []);
            r2 = (case r1 of [] \<Rightarrow> [] | c # r \<Rightarrow> if c = CHR ''.'' then dropWhile is_digit r else r1)
        in if ip = [] \<and> fp = [] then NaN
           else Fin ((real (nat_of_digits ip) + real (nat_of_digits fp) / 10 ^ length fp)
                     * 10 powi exponent_part r2))"

definition parseFloat :: "string \<Rightarrow> jsnum" where
  "parseFloat str =
     (case dropWhile is_space str of
        [] \<Rightarrow> NaN
      | c # r \<Rightarrow>
          if c = CHR ''-'' then js_neg (unsigned_literal r)
          else if c = CHR ''+'' then unsigned_literal r
          else unsigned_literal (c # r))"


section \<open>Numeric ranges\<close>

text \<open>
  \<open>CFNumericRange\<close> of \<open>cf-numeric-range\<close>. The value is a number or a string; the
  precision counts decimal places and is a natural number; an option that is absent or
  \<open>undefined\<close> is \<open>None\<close>.
\<close>

datatype jsvalue = VNum jsnum | VStr string

record CFNumericRangeOptions =
  opt_min :: "jsnum option"
  opt_max :: "jsnum option"
  opt_precision :: "nat option"
  opt_step :: "jsnum option"
  opt_value :: "jsvalue option"

record CFNumericRange =
  nr_options :: CFNumericRangeOptions
  nr_min :: jsnum
  nr_max :: jsnum
  nr_precision :: "nat option"
  nr_step :: jsnum
  nr_stepPrecision :: nat
  nr_value :: jsvalue

subsection \<open>The helpers \<open>isNumeric\<close>, \<open>countDecimals\<close> and \<open>toFixed\<close>\<close>

definition Number_isFinite :: "jsnum \<Rightarrow> bool" where
  "Number_isFinite v = (case v of Fin _ \<Rightarrow> True | _ \<Rightarrow> False)"

text \<open>The argument is a number wherever \<open>isNumeric\<close> is called, so its \<open>typeof\<close> test holds.\<close>

definition isNumeric :: "jsnum \<Rightarrow> bool" where
  "isNumeric v = (True \<or> \<not> Number_isNaN v \<or> Number_isFinite v)"

text \<open>The loop of \<open>countDecimals\<close> may run forever; then the result is \<open>None\<close>.\<close>

partial_function (option) countDecimals_loop :: "jsnum \<Rightarrow> jsnum \<Rightarrow> nat \<Rightarrow> nat option" where
  "countDecimals_loop v e p =
     (if \<not> js_eq (js_div (Math_round (js_mul v e)) e) v
      then countDecimals_loop v (js_mul e (Fin 10)) (p + 1)
      else Some p)"

definition countDecimals :: "jsnum \<Rightarrow> nat option" where
  "countDecimals v = (if \<not> isNumeric v then Some 0 else countDecimals_loop v (Fin 1) 0)"

definition toFixed :: "jsnum \<Rightarrow> nat option \<Rightarrow> error + string" where
  "toFixed value0 decimals =
     (let value1 = parseFloat (Number_toString value0);
          value2 = (if isNumeric value1 then value1 else Fin 0);
          scaleFactor = Fin (10 ^ (case decimals of Some d \<Rightarrow> d | None \<Rightarrow> 10));
          nextValue = js_div (Math_round (js_mul value2 scaleFactor)) scaleFactor
      in case decimals of
           None \<Rightarrow> Inr (Number_toString nextValue)
         | Some d \<Rightarrow>
             if d \<noteq> 0 then Number_toFixed nextValue d else Inr (Number_toString nextValue))"

subsection \<open>Construction\<close>

text \<open>
  The constructor throws (\<open>Inl\<close>) or returns the instance (\<open>Inr\<close>); it does neither
  (\<open>None\<close>) when \<open>countDecimals\<close> does not return.
\<close>

definition CFNumericRange_new :: "CFNumericRangeOptions \<Rightarrow> (error + CFNumericRange) option" where
  "CFNumericRange_new options =
     (let min0 = (case opt_min options of Some v \<Rightarrow> v | None \<Rightarrow> Fin 0);
          max0 = (case opt_max options of Some v \<Rightarrow> v | None \<Rightarrow> Fin 100);
          precision = opt_precision options;
          step = (case opt_step options of Some v \<Rightarrow> v | None \<Rightarrow> Fin 1);
          value0 = (case opt_value options of Some v \<Rightarrow> v | None \<Rightarrow> VNum (Fin 0))
      in if js_lt max0 min0 then Some (Inl RangeError)
         else
           (case countDecimals step of
              None \<Rightarrow> None
            | Some p \<Rightarrow>
                Some (Inr \<lparr>nr_options = options, nr_min = min0, nr_max = max0,
                           nr_precision = precision, nr_step = step, nr_stepPrecision = p,
                           nr_value = value0\<rparr>)))"

subsection \<open>\<open>parse\<close>, \<open>valueOf\<close> and \<open>clamp\<close>\<close>

definition is_word :: "char \<Rightarrow> bool" where
  "is_word c =
     (let n = (of_char c :: nat)
      in (48 \<le> n \<and> n \<le> 57) \<or> (65 \<le> n \<and> n \<le> 90) \<or> n = 95 \<or> (97 \<le> n \<and> n \<le> 122))"

text \<open>\<open>replace(/[^\w.-]+/g, "")\<close>: only word characters, dots and minus signs stay.\<close>

definition strip :: "string \<Rightarrow> string" where
  "strip str = filter (\<lambda>c. is_word c \<or> c = CHR ''.'' \<or> c = CHR ''-'') str"

definition value_toString :: "jsvalue \<Rightarrow> string" where
  "value_toString v = (case v of VNum n \<Rightarrow> Number_toString n | VStr s \<Rightarrow> s)"

definition parse :: "jsvalue \<Rightarrow> jsnum" where
  "parse v = parseFloat (strip (value_toString v))"

definition valueOf :: "CFNumericRange \<Rightarrow> jsnum" where
  "valueOf this = parse (nr_value this)"

definition clamp :: "CFNumericRange \<Rightarrow> error + CFNumericRange" where
  "clamp this =
     (let value0 = valueOf this;
          value1 = Math_min (Math_max value0 (nr_min this)) (nr_max this)
      in case toFixed value1 (nr_precision this) of
           Inl e \<Rightarrow> Inl e
         | Inr s \<Rightarrow> Inr (this\<lparr>nr_value := VStr s\<rparr>))"

subsection \<open>Iteration\<close>

text \<open>
  The generator keeps \<open>current\<close> in a local variable and writes nothing to the range, so
  a traversal is a function of the range: the list of the numbers it yields, or \<open>None\<close>
  when it never comes to an end.
\<close>

partial_function (option) iterate :: "jsnum \<Rightarrow> CFNumericRange \<Rightarrow> jsnum list option" where
  "iterate current this =
     (if js_le current (nr_max this)
      then Option.bind (iterate (js_add current (nr_step this)) this) (\<lambda>rest. Some (current # rest))
      else Some [])"

definition iterator :: "CFNumericRange \<Rightarrow> jsnum list option" where
  "iterator this = iterate (nr_min this) this"


section \<open>Notions for the statements\<close>

text \<open>
  The spec's reading of an axis test: two open intervals, each given by its lower and
  upper end, overlap when each begins before the other ends.
\<close>

definition interval_overlap :: "jsnum \<times> jsnum \<Rightarrow> jsnum \<times> jsnum \<Rightarrow> bool" where
  "interval_overlap i j = (js_lt (fst i) (snd j) \<and> js_lt (fst j) (snd i))"

text \<open>
  A point lies on the infinite line through \<open>a\<close> and \<open>b\<close> when it is collinear with them:
  the cross product of \<open>p - a\<close> and \<open>b - a\<close> is zero.
\<close>

definition lies_on :: "CGPoint \<Rightarrow> Line \<Rightarrow> bool" where
  "lies_on p l =
     (let a = line_start l; b = line_end l
      in js_eq (js_mul (js_sub (pt_x p) (pt_x a)) (js_sub (pt_y b) (pt_y a)))
               (js_mul (js_sub (pt_y p) (pt_y a)) (js_sub (pt_x b) (pt_x a))))"


definition scale_round :: "nat option \<Rightarrow> jsnum \<Rightarrow> jsnum" where
  "scale_round decimals v =
     (let scaleFactor = Fin (10 ^ (case decimals of Some d \<Rightarrow> d | None \<Rightarrow> 10))
      in js_div (Math_round (js_mul v scaleFactor)) scaleFactor)"



definition all_digits :: "string \<Rightarrow> bool" where
  "all_digits ds = (\<forall>c \<in> set ds. is_digit c)"


section \<open>Concrete values\<close>

text \<open>The two rectangles of the intersection test, and a third one far below the first.\<close>

definition example_rectA :: CGRect where
  "example_rectA = CGRect_create (Fin 0) (Fin 0) (Fin 80) (Fin 100)"

definition example_rectB :: CGRect where
  "example_rectB = CGRect_create (Fin 60) (Fin 20) (Fin 50) (Fin 45)"

definition example_rectC :: CGRect where
  "example_rectC = CGRect_create (Fin 60) (Fin 200) (Fin 50) (Fin 45)"

text \<open>The x axis from \<open>(0,0)\<close> to \<open>(2,0)\<close>, and the vertical line \<open>x = 1\<close>; they cross at \<open>(1,0)\<close>.\<close>

definition example_horizontal :: Line where
  "example_horizontal =
     \<lparr>line_start = \<lparr>pt_x = Fin 0, pt_y = Fin 0\<rparr>, line_end = \<lparr>pt_x = Fin 2, pt_y = Fin 0\<rparr>\<rparr>"

definition example_vertical :: Line where
  "example_vertical =
     \<lparr>line_start = \<lparr>pt_x = Fin 1, pt_y = Fin (- 1)\<rparr>, line_end = \<lparr>pt_x = Fin 1, pt_y = Fin 1\<rparr>\<rparr>"


text \<open>
  Options with every field given, and the range that the constructor makes of them when
  the step has no decimals.
\<close>

definition options_of ::
    "jsnum \<Rightarrow> jsnum \<Rightarrow> jsnum \<Rightarrow> nat option \<Rightarrow> jsvalue \<Rightarrow> CFNumericRangeOptions" where
  "options_of lo hi stp prec v =
     \<lparr>opt_min = Some lo, opt_max = Some hi, opt_precision = prec, opt_step = Some stp,
      opt_value = Some v\<rparr>"

definition range_of :: "jsnum \<Rightarrow> jsnum \<Rightarrow> jsnum \<Rightarrow> nat option \<Rightarrow> jsvalue \<Rightarrow> CFNumericRange" where
  "range_of lo hi stp prec v =
     \<lparr>nr_options = options_of lo hi stp prec v, nr_min = lo, nr_max = hi, nr_precision = prec,
      nr_step = stp, nr_stepPrecision = 0, nr_value = v\<rparr>"

text \<open>From 0 to 10 in steps of 1, of 3 and of 0.\<close>

definition zero_to_ten :: CFNumericRange where
  "zero_to_ten = range_of (Fin 0) (Fin 10) (Fin 1) None (VNum (Fin 0))"

definition zero_to_ten_by_three :: CFNumericRange where
  "zero_to_ten_by_three = range_of (Fin 0) (Fin 10) (Fin 3) None (VNum (Fin 0))"

definition zero_to_ten_by_zero :: CFNumericRange where
  "zero_to_ten_by_zero = range_of (Fin 0) (Fin 10) (Fin 0) None (VNum (Fin 0))"

text \<open>The range of the clamp test: from 6 to 10 with the value 5.\<close>

definition six_to_ten :: CFNumericRange where
  "six_to_ten = range_of (Fin 6) (Fin 10) (Fin 1) None (VNum (Fin 5))"

text \<open>From 0.25 to 0.75 with one decimal place and the value 1.\<close>

definition quarter_range :: CFNumericRange where
  "quarter_range = range_of (Fin (1 / 4)) (Fin (3 / 4)) (Fin 1) (Some 1) (VNum (Fin 1))"

text \<open>From 0 to 10 with the empty string as value.\<close>

definition empty_value_range :: CFNumericRange where
  "empty_value_range = range_of (Fin 0) (Fin 10) (Fin 1) None (VStr [])"



section \<open>Arithmetic with \<open>NaN\<close>\<close>

lemma js_lt_NaN_right [simp]: "js_lt a NaN = False"
  by (cases a) simp_all

lemma js_le_NaN_right [simp]: "js_le a NaN = False"
  by (cases a) simp_all

lemma js_add_NaN_right [simp]: "js_add a NaN = NaN"
  by (cases a) simp_all

lemma js_mul_NaN_right [simp]: "js_mul a NaN = NaN"
  by (cases a) simp_all

lemma js_div_NaN_right [simp]: "js_div a NaN = NaN"
  by (cases a) simp_all

lemma js_sub_zero: "js_sub a (Fin 0) = a"
  by (cases a) (simp_all add: js_sub_def)

lemmas rect_getters = CGRect_create_def CGRect_x_def CGRect_y_def CGRect_width_def
  CGRect_height_def minX_def maxX_def minY_def maxY_def


section \<open>Line intersection\<close>

lemma intersection_None_iff: "intersection l m = None \<longleftrightarrow> determinant l m = Fin 0"
  by (auto simp add: intersection_def js_eq_def Let_def)

text \<open>
  Claim C1. The intersection of two lines is absent exactly when the determinant is
  zero, and otherwise it is the crossing point, which lies on both infinite lines. The
  first half holds (\<open>intersection_None_iff\<close>). The second fails: for the x axis and the
  vertical line \<open>x = 1\<close> the determinant is 4 and the function returns \<open>(0,2)\<close>, which is
  on neither line; the crossing point is \<open>(1,0)\<close>.
\<close>

theorem intersection_off_both_lines:
  "determinant example_horizontal example_vertical = Fin 4
   \<and> intersection example_horizontal example_vertical = Some \<lparr>pt_x = Fin 0, pt_y = Fin 2\<rparr>
   \<and> \<not> lies_on \<lparr>pt_x = Fin 0, pt_y = Fin 2\<rparr> example_horizontal
   \<and> \<not> lies_on \<lparr>pt_x = Fin 0, pt_y = Fin 2\<rparr> example_vertical
   \<and> lies_on \<lparr>pt_x = Fin 1, pt_y = Fin 0\<rparr> example_horizontal
   \<and> lies_on \<lparr>pt_x = Fin 1, pt_y = Fin 0\<rparr> example_vertical"
  by (simp add: intersection_def determinant_def lies_on_def example_horizontal_def
      example_vertical_def js_sub_def js_eq_def)


section \<open>Setting a size under a locked aspect ratio\<close>

lemma CGSize_set_width_only_guarded:
  "\<not> truthy (aspectRatio s) \<Longrightarrow>
   CGSize_set \<lparr>part_width = Some w, part_height = None\<rparr> True s = s\<lparr>sz_width := w\<rparr>"
  by (simp add: CGSize_set_def)

text \<open>
  Claim C3. With the aspect ratio locked and one dimension supplied, a falsy current
  aspect ratio leaves the other dimension as it is. The branch for a supplied width tests
  the aspect ratio (\<open>CGSize_set_width_only_guarded\<close>); the branch for a supplied height
  does not: on the zero size, whose aspect ratio is \<open>NaN\<close>, setting the height to 10 stores
  \<open>NaN\<close> as the width.
\<close>

theorem CGSize_set_height_only_unguarded:
  "\<not> truthy (aspectRatio \<lparr>sz_width = Fin 0, sz_height = Fin 0\<rparr>)
   \<and> CGSize_set \<lparr>part_width = None, part_height = Some (Fin 10)\<rparr> True
        \<lparr>sz_width = Fin 0, sz_height = Fin 0\<rparr>
      = \<lparr>sz_width = NaN, sz_height = Fin 10\<rparr>"
  by (simp add: CGSize_set_def aspectRatio_def)


section \<open>Inflating a rectangle\<close>

lemma Rect_inflate_origin:
  "r_x (Rect_inflate d r) = js_sub (r_x r) d \<and> r_y (Rect_inflate d r) = js_sub (r_y r) d"
  by (auto simp add: Rect_inflate_def js_eq_def Let_def js_sub_zero)

text \<open>
  Claim C4. \<open>inflate(delta)\<close> moves the origin by \<open>(-delta, -delta)\<close> in every variant of
  the rectangle. The flat \<open>Rect\<close> does (\<open>Rect_inflate_origin\<close>); \<open>CGRect\<close> adds \<open>delta\<close> to
  the origin instead: inflating \<open>(0,0,10,10)\<close> by 2 gives \<open>(2,2,8,8)\<close>, so \<open>x\<close> is 2 and
  not \<open>-2\<close>.
\<close>

theorem CGRect_inflate_moves_origin_inwards:
  "CGRect_inflate (Fin 2) (CGRect_create (Fin 0) (Fin 0) (Fin 10) (Fin 10))
     = CGRect_create (Fin 2) (Fin 2) (Fin 8) (Fin 8)
   \<and> CGRect_x (CGRect_inflate (Fin 2) (CGRect_create (Fin 0) (Fin 0) (Fin 10) (Fin 10)))
       \<noteq> js_sub (CGRect_x (CGRect_create (Fin 0) (Fin 0) (Fin 10) (Fin 10))) (Fin 2)"
  by (simp add: CGRect_inflate_def CGSize_set_def js_sub_def rect_getters)


section \<open>Overlapping and intersecting rectangles\<close>

lemma one_axis_only:
  "overlapsHorizontally example_rectA example_rectC
   \<and> \<not> overlapsVertically example_rectA example_rectC
   \<and> overlaps example_rectA example_rectC \<and> \<not> intersects example_rectA example_rectC"
  by (simp add: example_rectA_def example_rectC_def overlaps_def overlapsHorizontally_def
      overlapsVertically_def intersects_def js_gt_def rect_getters)

text \<open>
  Claim C6. \<open>overlaps\<close> holds iff the two boxes overlap as intervals on the x axis or on
  the y axis; it is strictly looser than \<open>intersects\<close>: whatever intersects overlaps, and
  some pair of rectangles overlaps on exactly one axis without intersecting.
\<close>

theorem overlaps_looser_than_intersects:
  "(overlaps a b \<longleftrightarrow>
      interval_overlap (minX a, maxX a) (minX b, maxX b)
      \<or> interval_overlap (minY a, maxY a) (minY b, maxY b))
   \<and> (intersects a b \<longrightarrow> overlaps a b)
   \<and> (\<exists>r1 r2. overlapsHorizontally r1 r2 \<and> \<not> overlapsVertically r1 r2
         \<and> overlaps r1 r2 \<and> \<not> intersects r1 r2)"
proof (intro conjI)
  show "overlaps a b \<longleftrightarrow>
      interval_overlap (minX a, maxX a) (minX b, maxX b)
      \<or> interval_overlap (minY a, maxY a) (minY b, maxY b)"
    by (auto simp add: overlaps_def overlapsHorizontally_def overlapsVertically_def
        interval_overlap_def js_gt_def minX_def minY_def Let_def)
  show "intersects a b \<longrightarrow> overlaps a b"
    by (simp add: overlaps_def overlapsHorizontally_def intersects_def js_gt_def Let_def)
  show "\<exists>r1 r2. overlapsHorizontally r1 r2 \<and> \<not> overlapsVertically r1 r2
         \<and> overlaps r1 r2 \<and> \<not> intersects r1 r2"
    using one_axis_only by blast
qed

theorem overlaps_looser_than_intersects_witness:
  "intersects example_rectA example_rectB \<and> overlaps example_rectA example_rectB"
proof -
  have "intersects example_rectA example_rectB"
    by (simp add: example_rectA_def example_rectB_def intersects_def js_gt_def rect_getters)
  then show ?thesis
    using overlaps_looser_than_intersects [of example_rectA example_rectB] by blast
qed


section \<open>Pixel alignment\<close>





section \<open>Containment of a \<open>NaN\<close> point\<close>

text \<open>
  Claim C9. A rectangle whose \<open>x\<close> and \<open>y\<close> are not \<open>NaN\<close> contains the point whose two
  coordinates are \<open>NaN\<close>, whatever its width and height: no comparison rejects the point.
  Both variants of the rectangle behave so.
\<close>

theorem containsPoint_NaN_point:
  "\<not> Number_isNaN (CGRect_x r) \<Longrightarrow> \<not> Number_isNaN (CGRect_y r) \<Longrightarrow>
   \<not> Number_isNaN (r_x f) \<Longrightarrow> \<not> Number_isNaN (r_y f) \<Longrightarrow>
   containsPoint r \<lparr>pt_x = NaN, pt_y = NaN\<rparr> \<and> Rect_containsPoint f \<lparr>pt_x = NaN, pt_y = NaN\<rparr>"
  by (simp add: containsPoint_def Rect_containsPoint_def js_gt_def)

theorem containsPoint_NaN_point_witness:
  "\<not> Number_isNaN (CGRect_x (CGRect_create (Fin 0) (Fin 0) (Fin 0) (Fin 0)))
   \<and> \<not> Number_isNaN (CGRect_y (CGRect_create (Fin 0) (Fin 0) (Fin 0) (Fin 0)))
   \<and> \<not> Number_isNaN (r_x \<lparr>r_x = Fin 3, r_y = Fin 4, r_width = Fin 5, r_height = NaN\<rparr>)
   \<and> \<not> Number_isNaN (r_y \<lparr>r_x = Fin 3, r_y = Fin 4, r_width = Fin 5, r_height = NaN\<rparr>)
   \<and> containsPoint (CGRect_create (Fin 0) (Fin 0) (Fin 0) (Fin 0)) \<lparr>pt_x = NaN, pt_y = NaN\<rparr>
   \<and> Rect_containsPoint \<lparr>r_x = Fin 3, r_y = Fin 4, r_width = Fin 5, r_height = NaN\<rparr>
        \<lparr>pt_x = NaN, pt_y = NaN\<rparr>"
proof -
  have h1: "\<not> Number_isNaN (CGRect_x (CGRect_create (Fin 0) (Fin 0) (Fin 0) (Fin 0)))"
    and h2: "\<not> Number_isNaN (CGRect_y (CGRect_create (Fin 0) (Fin 0) (Fin 0) (Fin 0)))"
    by (simp_all add: Number_isNaN_def rect_getters)
  have h3: "\<not> Number_isNaN (r_x \<lparr>r_x = Fin 3, r_y = Fin 4, r_width = Fin 5, r_height = NaN\<rparr>)"
    and h4: "\<not> Number_isNaN (r_y \<lparr>r_x = Fin 3, r_y = Fin 4, r_width = Fin 5, r_height = NaN\<rparr>)"
    by (simp_all add: Number_isNaN_def)
  from containsPoint_NaN_point [OF h1 h2 h3 h4] h1 h2 h3 h4 show ?thesis
    by blast
qed


section \<open>Subtracting a point\<close>



text \<open>No other object of the store is written.\<close>

lemma subtract_frame:
  "q \<noteq> this \<Longrightarrow> q \<noteq> point \<Longrightarrow> snd (subtract this point s) q = s q"
  by (simp add: subtract_def negate_def Let_def)

text \<open>
  When the receiver is its own argument there is one object: it is negated and then
  added to itself.
\<close>

lemma subtract_self:
  "pt_x (snd (subtract a a s) a) = js_add (js_neg (pt_x (s a))) (js_neg (pt_x (s a)))
   \<and> pt_y (snd (subtract a a s) a) = js_add (js_neg (pt_y (s a))) (js_neg (pt_y (s a)))"
  by (simp add: subtract_def negate_def Let_def)


section \<open>Strings of digits\<close>

lemma digit_char_props:
  assumes "n < 10"
  shows "is_digit (digit_char n)" "digit_val (digit_char n) = n"
    "digit_char n \<noteq> CHR ''.''" "digit_char n \<noteq> CHR ''-''" "digit_char n \<noteq> CHR ''+''"
    "digit_char n \<noteq> CHR ''e''" "digit_char n \<noteq> CHR ''E''" "is_word (digit_char n)"
    "\<not> is_space (digit_char n)"
proof -
  from assms have "n \<in> {0, 1, 2, 3, 4, 5, 6, 7, 8, 9}" by auto
  then show "is_digit (digit_char n)" "digit_val (digit_char n) = n"
    "digit_char n \<noteq> CHR ''.''" "digit_char n \<noteq> CHR ''-''" "digit_char n \<noteq> CHR ''+''"
    "digit_char n \<noteq> CHR ''e''" "digit_char n \<noteq> CHR ''E''" "is_word (digit_char n)"
    "\<not> is_space (digit_char n)"
    by (auto simp add: digit_char_def is_digit_def digit_val_def is_word_def is_space_def)
qed

lemma is_digit_props:
  assumes "is_digit c"
  shows "c \<noteq> CHR ''.''" "c \<noteq> CHR ''-''" "c \<noteq> CHR ''+''" "c \<noteq> CHR ''e''" "c \<noteq> CHR ''E''"
    "is_word c" "\<not> is_space c" "c \<noteq> CHR ''I''"
  using assms by (auto simp add: is_digit_def is_word_def is_space_def)

lemma all_digits_simps [simp]:
  "all_digits []" "all_digits (c # cs) = (is_digit c \<and> all_digits cs)"
  "all_digits (a @ b) = (all_digits a \<and> all_digits b)"
  by (auto simp add: all_digits_def)

lemma all_digits_replicate [simp]: "all_digits (replicate z CHR ''0'')"
  by (simp add: all_digits_def is_digit_def)




lemma nat_of_digits_Nil [simp]: "nat_of_digits [] = 0"
  by (simp add: nat_of_digits_def)

lemma nat_of_digits_snoc [simp]: "nat_of_digits (ds @ [c]) = 10 * nat_of_digits ds + digit_val c"
  by (simp add: nat_of_digits_def)


lemma nat_of_digits_zeros [simp]: "nat_of_digits (replicate z CHR ''0'') = 0"
proof (induction z)
  case 0
  then show ?case by simp
next
  case (Suc z)
  have "replicate (Suc z) CHR ''0'' = replicate z CHR ''0'' @ ''0''"
    by (simp add: replicate_append_same)
  then show ?case using Suc by (simp add: digit_val_def del: replicate_Suc)
qed

lemma nat_of_digits_digits_of [simp]: "nat_of_digits (digits_of n) = n"
proof (induction n rule: digits_of.induct)
  case (1 n)
  show ?case
  proof (cases "n < 10")
    case True
    then have "nat_of_digits ([] @ [digit_char n]) = n"
      by (simp only: nat_of_digits_snoc) (simp add: digit_char_props)
    with True show ?thesis by (subst digits_of.simps) simp
  next
    case False
    with 1 show ?thesis by (subst digits_of.simps) (simp add: digit_char_props)
  qed
qed



section \<open>Reading literals\<close>

lemma exponent_part_Nil [simp]: "exponent_part [] = 0"
  by (simp add: exponent_part_def)

lemma takeWhile_all_digits [simp]: "all_digits E \<Longrightarrow> takeWhile is_digit E = E"
  by (simp add: all_digits_def)









lemma strip_append [simp]: "strip (a @ b) = strip a @ strip b"
  by (simp add: strip_def)

lemma strip_digits [simp]: "all_digits ds \<Longrightarrow> strip ds = ds"
  by (simp add: strip_def all_digits_def is_digit_props)


section \<open>Decimal notation reads back\<close>





section \<open>The printed value of a number\<close>








section \<open>A number, its string and the number read from it\<close>











section \<open>Rounding to a precision\<close>


lemma scale_round_special [simp]:
  "scale_round p NaN = NaN" "scale_round p PosInf = PosInf" "scale_round p NegInf = NegInf"
  by (simp_all add: scale_round_def Let_def signed_inf_def)




section \<open>The helper \<open>toFixed\<close>\<close>

lemma special_strings:
  "Number_toString NaN = ''NaN''" "Number_toString PosInf = ''Infinity''"
  "Number_toString NegInf = ''-Infinity''"
  by (simp_all add: Number_toString_def)

lemma parseFloat_special:
  "parseFloat ''NaN'' = NaN" "parseFloat ''Infinity'' = PosInf" "parseFloat ''-Infinity'' = NegInf"
  "parseFloat (strip ''NaN'') = NaN" "parseFloat (strip ''Infinity'') = PosInf"
  "parseFloat (strip ''-Infinity'') = NegInf"
  by code_simp+




section \<open>Clamping\<close>







lemma countDecimals_integer:
  "countDecimals (Fin 0) = Some 0" "countDecimals (Fin 1) = Some 0" "countDecimals (Fin 3) = Some 0"
  by (simp_all add: countDecimals_def isNumeric_def countDecimals_loop.simps js_eq_def)

lemma new_range_of:
  assumes "js_le lo hi" "countDecimals stp = Some 0"
  shows "CFNumericRange_new (options_of lo hi stp prec v) = Some (Inr (range_of lo hi stp prec v))"
proof -
  from assms(1) have "\<not> js_lt hi lo" by (cases lo; cases hi) simp_all
  with assms(2) show ?thesis
    by (simp add: CFNumericRange_new_def Let_def options_of_def range_of_def)
qed

text \<open>The pieces of the calls below, each computed on its own.\<close>

lemma parse_examples:
  "parse (VNum (Fin 1)) = Fin 1" "parse (VNum (Fin 5)) = Fin 5" "parse (VStr []) = NaN"
  "parse (VStr ''0.8'') = Fin (4 / 5)" "parse (VStr ''6'') = Fin 6" "parse (VStr ''NaN'') = NaN"
  by code_simp+

lemma parseFloat_examples:
  "parseFloat (Number_toString (Fin (3 / 4))) = Fin (3 / 4)" "parseFloat ''6'' = Fin 6"
  by code_simp+

lemma toString_examples:
  "Number_toString (Fin 6) = ''6''" "Number_toFixed (Fin (4 / 5)) 1 = Inr ''0.8''"
  by code_simp+


lemma quarter_range_new:
  "CFNumericRange_new (options_of (Fin (1 / 4)) (Fin (3 / 4)) (Fin 1) (Some 1) (VNum (Fin 1)))
     = Some (Inr quarter_range)"
  unfolding quarter_range_def by (rule new_range_of) (simp_all add: countDecimals_integer)


text \<open>The clamp test of the package: the value 5 in the range from 6 to 10 becomes 6.\<close>

lemma clamp_six_to_ten:
  "clamp six_to_ten = Inr (six_to_ten\<lparr>nr_value := VStr ''6''\<rparr>)
   \<and> valueOf (six_to_ten\<lparr>nr_value := VStr ''6''\<rparr>) = Fin 6"
  by (simp add: six_to_ten_def range_of_def clamp_def valueOf_def Let_def parse_examples
      parseFloat_examples toString_examples Math_max_def Math_min_def toFixed_def isNumeric_def)


text \<open>A value that does not parse: the empty string is stored back as \<open>NaN\<close>.\<close>

lemma clamp_of_NaN:
  "clamp empty_value_range = Inr (empty_value_range\<lparr>nr_value := VStr ''NaN''\<rparr>)
   \<and> valueOf (empty_value_range\<lparr>nr_value := VStr ''NaN''\<rparr>) = NaN"
  by (simp add: empty_value_range_def range_of_def clamp_def valueOf_def Let_def parse_examples
      parseFloat_special special_strings Math_max_def Math_min_def toFixed_def isNumeric_def)

text \<open>A precision above 100 makes \<open>toFixed\<close>, and with it \<open>clamp\<close>, raise a range error.\<close>

lemma clamp_precision_too_large:
  assumes "nr_precision r = Some d" "100 < d"
  shows "clamp r = Inl RangeError"
  using assms by (simp add: clamp_def toFixed_def Number_toFixed_def Let_def)


section \<open>Construction of a range\<close>

lemma js_le_not_lt: "js_le a b \<Longrightarrow> \<not> js_lt b a"
  by (cases a; cases b) simp_all

text \<open>
  Claim C7. Constructing a range with \<open>max < min\<close> raises the range error and gives no
  instance; with \<open>min \<le> max\<close> construction raises no error. The bounds are the ones in
  force: 0 and 100 where the options leave them out.
\<close>

theorem construction_fails_iff_max_below_min:
  "(js_lt (case opt_max opts of Some v \<Rightarrow> v | None \<Rightarrow> Fin 100)
          (case opt_min opts of Some v \<Rightarrow> v | None \<Rightarrow> Fin 0)
      \<longrightarrow> CFNumericRange_new opts = Some (Inl RangeError))
   \<and> (js_le (case opt_min opts of Some v \<Rightarrow> v | None \<Rightarrow> Fin 0)
            (case opt_max opts of Some v \<Rightarrow> v | None \<Rightarrow> Fin 100)
      \<longrightarrow> (\<forall>e. CFNumericRange_new opts \<noteq> Some (Inl e)))"
  by (auto simp add: CFNumericRange_new_def Let_def dest: js_le_not_lt split: option.splits)

theorem construction_fails_iff_max_below_min_witness:
  "js_lt (Fin 2) (Fin 6)
   \<and> CFNumericRange_new (options_of (Fin 6) (Fin 2) (Fin 1) None (VNum (Fin 0)))
       = Some (Inl RangeError)
   \<and> js_le (Fin 0) (Fin 10)
   \<and> CFNumericRange_new (options_of (Fin 0) (Fin 10) (Fin 1) None (VNum (Fin 0)))
       \<noteq> Some (Inl RangeError)
   \<and> CFNumericRange_new (options_of (Fin 0) (Fin 10) (Fin 1) None (VNum (Fin 0)))
       = Some (Inr zero_to_ten)"
proof -
  have lt: "js_lt (case opt_max (options_of (Fin 6) (Fin 2) (Fin 1) None (VNum (Fin 0))) of
                     Some v \<Rightarrow> v | None \<Rightarrow> Fin 100)
                  (case opt_min (options_of (Fin 6) (Fin 2) (Fin 1) None (VNum (Fin 0))) of
                     Some v \<Rightarrow> v | None \<Rightarrow> Fin 0)"
    by (simp add: options_of_def)
  have le: "js_le (case opt_min (options_of (Fin 0) (Fin 10) (Fin 1) None (VNum (Fin 0))) of
                     Some v \<Rightarrow> v | None \<Rightarrow> Fin 0)
                  (case opt_max (options_of (Fin 0) (Fin 10) (Fin 1) None (VNum (Fin 0))) of
                     Some v \<Rightarrow> v | None \<Rightarrow> Fin 100)"
    by (simp add: options_of_def)
  have new: "CFNumericRange_new (options_of (Fin 0) (Fin 10) (Fin 1) None (VNum (Fin 0)))
       = Some (Inr zero_to_ten)"
    unfolding zero_to_ten_def by (rule new_range_of) (simp_all add: countDecimals_integer)
  from construction_fails_iff_max_below_min
         [of "options_of (Fin 6) (Fin 2) (Fin 1) None (VNum (Fin 0))"] lt
  have "CFNumericRange_new (options_of (Fin 6) (Fin 2) (Fin 1) None (VNum (Fin 0)))
       = Some (Inl RangeError)"
    by blast
  moreover from construction_fails_iff_max_below_min
         [of "options_of (Fin 0) (Fin 10) (Fin 1) None (VNum (Fin 0))"] le
  have "CFNumericRange_new (options_of (Fin 0) (Fin 10) (Fin 1) None (VNum (Fin 0)))
       \<noteq> Some (Inl RangeError)"
    by blast
  ultimately show ?thesis using new by simp
qed


section \<open>Iterating a range\<close>


text \<open>A traversal that cannot advance below the maximum never ends.\<close>

lemma iterate_stuck:
  assumes "js_le c (nr_max r)" "js_add c (nr_step r) = c"
  shows "iterate c r = None"
proof (rule ccontr)
  assume "iterate c r \<noteq> None"
  then obtain ys where "iterate c r = Some ys" by auto
  then have "\<not> (js_le c (nr_max r) \<and> js_add c (nr_step r) = c)"
    by (rule iterate.raw_induct
          [rotated 1, where P = "\<lambda>c r ys. \<not> (js_le c (nr_max r) \<and> js_add c (nr_step r) = c)"])
       (auto split: if_splits simp add: bind_eq_Some_conv)
  with assms show False by simp
qed

lemma iterator_zero_step: "iterator zero_to_ten_by_zero = None"
  unfolding iterator_def
  by (rule iterate_stuck) (simp_all add: zero_to_ten_by_zero_def range_of_def)

lemma zero_to_ten_by_three_new:
  "CFNumericRange_new (options_of (Fin 0) (Fin 10) (Fin 3) None (VNum (Fin 0)))
     = Some (Inr zero_to_ten_by_three)"
  unfolding zero_to_ten_by_three_def by (rule new_range_of) (simp_all add: countDecimals_integer)




end
